theory Spec2Isabelle
  imports Complex_Main "HOL-Library.Sublist" "HOL-Library.Word"
begin

section \<open>Strings and arrays of the JavaScript runtime\<close>

text \<open>
  A JavaScript string is modelled as a \<^typ>\<open>string\<close>: one \<^typ>\<open>char\<close> per ASCII character,
  and a character outside ASCII as the bytes of its UTF-8 encoding (the em-dash U+2014 is
  the three bytes E2 80 94). The functions below are exact on ASCII text. On other text
  JavaScript would also change the case of letters beyond ASCII, count a character as one
  or two UTF-16 units in \<^verbatim>\<open>length\<close>, and treat a few more code points as white space;
  none of the quotes, tags, keys and relay messages the program handles rely on that.
\<close>

definition toLowerCaseChar :: "char \<Rightarrow> char" where
  "toLowerCaseChar c =
     (let n = (of_char c :: nat) in if 65 \<le> n \<and> n \<le> 90 then char_of (n + 32) else c)"

definition toLowerCase :: "string \<Rightarrow> string" where
  "toLowerCase s = map toLowerCaseChar s"

text \<open>The class \<^verbatim>\<open>\s\<close> of a regular expression, which is also what \<^verbatim>\<open>trim\<close> removes:
  tab, line feed, vertical tab, form feed, carriage return and space.\<close>

definition isWhiteSpace :: "char \<Rightarrow> bool" where
  "isWhiteSpace c = (c \<in> set [CHR 0x09, CHR 0x0A, CHR 0x0B, CHR 0x0C, CHR 0x0D, CHR 0x20])"


definition startsWith :: "string \<Rightarrow> string \<Rightarrow> bool" where
  "startsWith s p = (take (length p) s = p)"

text \<open>\<^verbatim>\<open>s.includes(p)\<close>: does \<^verbatim>\<open>p\<close> occur in \<^verbatim>\<open>s\<close> as a contiguous run.\<close>

fun includes_str :: "string \<Rightarrow> string \<Rightarrow> bool" where
  "includes_str [] p = (p = [])"
| "includes_str (c # cs) p = (startsWith (c # cs) p \<or> includes_str cs p)"

text \<open>\<^verbatim>\<open>xs.join(sep)\<close> on an array of strings.\<close>

fun join :: "string \<Rightarrow> string list \<Rightarrow> string" where
  "join sep [] = []"
| "join sep [x] = x"
| "join sep (x # y # ys) = x @ sep @ join sep (y # ys)"

text \<open>\<^verbatim>\<open>xs.slice(start)\<close> with one argument: a negative start counts from the end, and
  both directions are clamped to the array.\<close>

definition slice :: "int \<Rightarrow> 'a list \<Rightarrow> 'a list" where
  "slice start xs =
     (let len = int (length xs);
          k = (if start < 0 then max (len + start) 0 else min start len)
      in drop (nat k) xs)"

text \<open>\<^verbatim>\<open>[...new Set(xs)]\<close>: a Set keeps the first occurrence of each value, in insertion
  order.\<close>

definition spreadSet :: "'a list \<Rightarrow> 'a list" where
  "spreadSet xs = foldl (\<lambda>acc x. if x \<in> set acc then acc else acc @ [x]) [] xs"

text \<open>\<^verbatim>\<open>xs[i]\<close>: reading past the end of an array gives \<^verbatim>\<open>undefined\<close>, here \<^const>\<open>None\<close>.\<close>

definition at_index :: "'a list \<Rightarrow> nat \<Rightarrow> 'a option" where
  "at_index xs i = (if i < length xs then Some (xs ! i) else None)"

text \<open>The decimal text of an integer, as a template literal prints a number. (JavaScript
  switches to exponent notation from \<open>10\<^sup>2\<^sup>1\<close> on; no year is that large.)\<close>

function natToString :: "nat \<Rightarrow> string" where
  "natToString n =
     (if n < 10 then [char_of (48 + n)]
      else natToString (n div 10) @ [char_of (48 + n mod 10)])"
  by pat_completeness auto
termination
  by (relation "measure (\<lambda>n. n)") auto

definition numberToString :: "int \<Rightarrow> string" where
  "numberToString i = (if i < 0 then CHR ''-'' # natToString (nat (- i)) else natToString (nat i))"

text \<open>A value that was thrown: an \<^verbatim>\<open>Error\<close> object with its message, a \<^verbatim>\<open>TypeError\<close>
  raised by the runtime, or some value that is not an \<^verbatim>\<open>Error\<close> at all.\<close>

datatype thrown = Error string | TypeError string | NonError

section \<open>Data model\<close>

text \<open>The interface \<^verbatim>\<open>Quote\<close>; the fields \<^verbatim>\<open>id\<close> and \<^verbatim>\<open>text\<close> are \<open>qid\<close> and \<open>qtext\<close>
  here. An optional field that is absent is \<^const>\<open>None\<close>.\<close>

record Quote =
  qid :: string
  qtext :: string
  author :: string
  source :: "string option"
  year :: "int option"
  tags :: "string list"

record BotState =
  recentQuoteIds :: "string list"
  lastPostTimestamp :: int
  totalPostsCount :: int

text \<open>Truthiness of the optional fields, as \<^verbatim>\<open>if (quote.source)\<close> and
  \<^verbatim>\<open>if (quote.year)\<close> test it: an absent field, the empty string and the number 0 are
  falsy.\<close>

definition truthyString :: "string option \<Rightarrow> bool" where
  "truthyString s = (case s of None \<Rightarrow> False | Some v \<Rightarrow> v \<noteq> [])"

definition truthyNumber :: "int option \<Rightarrow> bool" where
  "truthyNumber n = (case n of None \<Rightarrow> False | Some v \<Rightarrow> v \<noteq> 0)"

section \<open>The posting script: composing the post\<close>

text \<open>The model follows the current revision of \<^verbatim>\<open>bot/index.ts\<close>, the one that queries
  the relays for the posts already made and keeps 100 identifiers.\<close>

definition normalizeHashtag :: "string \<Rightarrow> string" where
  "normalizeHashtag tag =
     filter (\<lambda>c. \<not> (c = CHR ''-'' \<or> isWhiteSpace c)) (toLowerCase tag)"

text \<open>What a template literal prints for an optional field: the text \<^verbatim>\<open>undefined\<close> when
  the field is absent.\<close>

definition templateString :: "string option \<Rightarrow> string" where
  "templateString s = (case s of None \<Rightarrow> ''undefined'' | Some v \<Rightarrow> v)"

definition templateNumber :: "int option \<Rightarrow> string" where
  "templateNumber n = (case n of None \<Rightarrow> ''undefined'' | Some v \<Rightarrow> numberToString v)"

text \<open>The em-dash U+2014 of the script's author line, in UTF-8.\<close>

definition emDash :: string where
  "emDash = [CHR 0xE2, CHR 0x80, CHR 0x94]"

definition formatQuote :: "Quote \<Rightarrow> string" where
  "formatQuote quote =
     (let content = [CHR 0x22] @ qtext quote @ [CHR 0x22];
          content = content @ [CHR 0x0A, CHR 0x0A] @ emDash @ '' '' @ author quote;
          content =
            (if truthyString (source quote) \<and> truthyNumber (year quote)
             then content @ '' ('' @ templateString (source quote) @ '', ''
                    @ templateNumber (year quote) @ '')''
             else if truthyString (source quote)
             then content @ '' ('' @ templateString (source quote) @ '')''
             else if truthyNumber (year quote)
             then content @ '' ('' @ templateNumber (year quote) @ '')''
             else content)
      in if length (tags quote) > 0
         then let normalizedTags = map normalizeHashtag (tags quote)
              in content @ [CHR 0x0A, CHR 0x0A]
                   @ join '' '' (map (\<lambda>t. CHR ''#'' # t) normalizedTags)
         else content)"

definition generateTags :: "Quote \<Rightarrow> string list list" where
  "generateTags quote =
     (let tags1 = map (\<lambda>tag. [''t'', normalizeHashtag tag]) (tags quote);
          authorTag = normalizeHashtag (author quote);
          tags2 = tags1 @ [[''t'', authorTag]];
          tags3 = tags2 @ [[''quote_id'', qid quote]];
          tags4 = tags3 @ [[''client'', ''Cypherpunk Quotes Bot'']]
      in tags4)"

section \<open>The posting script: choosing a quote\<close>

text \<open>An event template, and the signed event that \<^verbatim>\<open>finalizeEvent\<close> makes of it. The
  fields \<^verbatim>\<open>id\<close>, \<^verbatim>\<open>pubkey\<close>, \<^verbatim>\<open>tags\<close> and \<^verbatim>\<open>content\<close> of an event are \<open>event_id\<close>,
  \<open>ev_pubkey\<close>, \<open>ev_tags\<close> and \<open>ev_content\<close> here.\<close>

record EventTemplate =
  kind :: int
  created_at :: int
  ev_tags :: "string list list"
  ev_content :: string

record NostrEvent = EventTemplate +
  event_id :: string
  ev_pubkey :: string
  sig :: string

text \<open>What a relay does when the script subscribes to the posts of its own key: the
  connection fails, or the subscription collects some events before it is closed.\<close>

datatype query_behaviour = QueryThrows thrown | QueryCollects "NostrEvent list"





text \<open>\<^verbatim>\<open>Math.floor(Math.random() * n)\<close>, for the number \<open>r\<close> that \<^verbatim>\<open>Math.random()\<close>
  returned, a real number with \<open>0 \<le> r < 1\<close>.\<close>

definition randomIndex :: "real \<Rightarrow> nat \<Rightarrow> nat" where
  "randomIndex r n = nat \<lfloor>r * real n\<rfloor>"

text \<open>The set \<^verbatim>\<open>recentSet\<close> that \<^verbatim>\<open>getRandomQuote\<close> builds from the identifiers of the
  state file and those found on the relays: the last 100 of them, each counted once.\<close>

definition recentSet :: "string list \<Rightarrow> string list \<Rightarrow> string set" where
  "recentSet recentIds nostrQuoteIds =
     (let allRecentIds = spreadSet (recentIds @ nostrQuoteIds)
      in set (slice (- 100) allRecentIds))"

text \<open>\<^verbatim>\<open>getRandomQuote\<close>, with the dataset \<^verbatim>\<open>quotesData.quotes\<close>, the identifiers that the
  query of the relays returned and the random number as arguments. The result is
  \<^const>\<open>None\<close> when the script reads \<^verbatim>\<open>undefined\<close> out of the array.\<close>

definition getRandomQuote :: "Quote list \<Rightarrow> string list \<Rightarrow> string list \<Rightarrow> real \<Rightarrow> Quote option" where
  "getRandomQuote quotes recentIds nostrQuoteIds r =
     (let availableQuotes = filter (\<lambda>q. qid q \<notin> recentSet recentIds nostrQuoteIds) quotes
      in if length availableQuotes = 0
         then at_index quotes (randomIndex r (length quotes))
         else at_index availableQuotes (randomIndex r (length availableQuotes)))"

section \<open>The posting script: the private key\<close>








section \<open>The posting script: publishing\<close>

text \<open>What a relay does when the script connects and submits the event: the connection
  fails, the relay confirms, the relay rejects, or nothing settles within the ten seconds
  of the timer.\<close>

datatype publish_behaviour =
  ConnectThrows thrown | PublishResolves | PublishRejects thrown | PublishPending

record RelayResult =
  relay :: string
  success :: bool
  error :: "string option"

text \<open>The body of the \<^verbatim>\<open>try\<close> block: \<^const>\<open>None\<close> when it runs to its end, otherwise the
  value that reaches the \<^verbatim>\<open>catch\<close> clause.\<close>

definition tryPublish :: "publish_behaviour \<Rightarrow> thrown option" where
  "tryPublish net =
     (case net of
        ConnectThrows e \<Rightarrow> Some e
      | PublishResolves \<Rightarrow> None
      | PublishRejects e \<Rightarrow> Some e
      | PublishPending \<Rightarrow> Some (Error ''Timeout waiting for relay confirmation''))"

text \<open>\<^verbatim>\<open>error instanceof Error ? error.message : 'Unknown error'\<close>.\<close>

definition messageOf :: "thrown \<Rightarrow> string" where
  "messageOf e =
     (case e of Error m \<Rightarrow> m | TypeError m \<Rightarrow> m | NonError \<Rightarrow> ''Unknown error'')"

text \<open>One round of the loop of \<^verbatim>\<open>publishToRelays\<close>: the entry pushed to \<^verbatim>\<open>results\<close>.\<close>

definition publishToRelay :: "string \<Rightarrow> publish_behaviour \<Rightarrow> RelayResult" where
  "publishToRelay url net =
     (case tryPublish net of
        None \<Rightarrow> \<lparr>relay = url, success = True, error = None\<rparr>
      | Some e \<Rightarrow>
          (let message = messageOf e
           in if includes_str (toLowerCase message) ''duplicate''
              then \<lparr>relay = url, success = True, error = None\<rparr>
              else \<lparr>relay = url, success = False, error = Some message\<rparr>))"

text \<open>A configured relay is its address and what it does with the event submitted.\<close>

type_synonym publish_relay = "string \<times> (NostrEvent \<Rightarrow> publish_behaviour)"

fun publishLoop :: "NostrEvent \<Rightarrow> RelayResult list \<Rightarrow> publish_relay list \<Rightarrow> RelayResult list" where
  "publishLoop event results [] = results"
| "publishLoop event results ((url, net) # rest) =
     publishLoop event (results @ [publishToRelay url (net event)]) rest"

definition publishToRelays :: "NostrEvent \<Rightarrow> publish_relay list \<Rightarrow> thrown + unit" where
  "publishToRelays event relayUrls =
     (let results = publishLoop event [] relayUrls;
          successCount = length (filter success results)
      in if successCount = 0 then Inl (Error ''Failed to publish to any relay'')
         else Inr ())"

section \<open>The posting script: one run\<close>



text \<open>The block \<^verbatim>\<open>// Update state\<close> of \<^verbatim>\<open>main\<close>; \<open>now\<close> is what \<^verbatim>\<open>Date.now()\<close> returns
  there.\<close>

definition updateState :: "BotState \<Rightarrow> Quote \<Rightarrow> int \<Rightarrow> BotState" where
  "updateState state quote now =
     (let state = state\<lparr>recentQuoteIds := recentQuoteIds state @ [qid quote]\<rparr>;
          state = state\<lparr>lastPostTimestamp := now\<rparr>;
          state = state\<lparr>totalPostsCount := totalPostsCount state + 1\<rparr>
      in if length (recentQuoteIds state) > 100
         then state\<lparr>recentQuoteIds := slice (- 100) (recentQuoteIds state)\<rparr>
         else state)"

text \<open>Everything outside the script that a run depends on: the environment variable, the
  library functions for keys and signatures, the dataset, the configured relays with what
  each does when queried and when published to, the random number and the clock.\<close>

record RelayNet =
  onQuery :: query_behaviour
  onPublish :: "NostrEvent \<Rightarrow> publish_behaviour"



definition publishRelaysOf :: "(string \<times> RelayNet) list \<Rightarrow> publish_relay list" where
  "publishRelaysOf rs = map (\<lambda>(url, net). (url, onPublish net)) rs"



section \<open>The dashboard\<close>

record BotConfig =
  cfg_relays :: "string list"
  intervalHours :: int
  hashtags :: "string list"

definition DEFAULT_BOT_CONFIG :: BotConfig where
  "DEFAULT_BOT_CONFIG =
     \<lparr>cfg_relays = [''wss://relay.damus.io'', ''wss://relay.nostr.band'', ''wss://nos.lol'',
                     ''wss://relay.primal.net'', ''wss://relay.ditto.pub''],
      intervalHours = 8,
      hashtags = [''cypherpunk'', ''bitcoin'', ''privacy'', ''freedom'']\<rparr>"

text \<open>The entry of the browser's storage holds a \<^typ>\<open>BotState\<close>, or is missing or does not
  parse (\<^const>\<open>None\<close>). The dashboard runs in a browser, where \<^verbatim>\<open>window\<close> is defined.\<close>

definition getBotState :: "BotState option \<Rightarrow> BotState" where
  "getBotState stored =
     (case stored of
        Some state \<Rightarrow> state
      | None \<Rightarrow> \<lparr>recentQuoteIds = [], lastPostTimestamp = 0, totalPostsCount = 0\<rparr>)"

definition saveBotState :: "BotState \<Rightarrow> BotState option" where
  "saveBotState state = Some state"

definition recordPostedQuote :: "BotState option \<Rightarrow> string \<Rightarrow> int \<Rightarrow> BotState option" where
  "recordPostedQuote stored quoteId now =
     (let state = getBotState stored;
          state = state\<lparr>recentQuoteIds := slice (- 50) (recentQuoteIds state @ [quoteId])\<rparr>;
          state = state\<lparr>lastPostTimestamp := now\<rparr>;
          state = state\<lparr>totalPostsCount := totalPostsCount state + 1\<rparr>
      in saveBotState state)"

text \<open>\<^verbatim>\<open>s.replace(/\s+/g, '-')\<close>: every maximal run of white space becomes one hyphen.\<close>

function replaceSpaceRuns :: "string \<Rightarrow> string" where
  "replaceSpaceRuns [] = []"
| "replaceSpaceRuns (c # cs) =
     (if isWhiteSpace c then CHR ''-'' # replaceSpaceRuns (dropWhile isWhiteSpace cs)
      else c # replaceSpaceRuns cs)"
  by pat_completeness auto
termination
  by (relation "measure length") (auto simp: length_dropWhile_le less_Suc_eq_le)

definition generateQuoteTags :: "Quote \<Rightarrow> BotConfig \<Rightarrow> string list list" where
  "generateQuoteTags quote config =
     (let tags1 = map (\<lambda>tag. [''t'', tag]) (hashtags config);
          tags2 = tags1 @ map (\<lambda>tag. [''t'', tag])
                            (filter (\<lambda>tag. tag \<notin> set (hashtags config)) (tags quote));
          authorTag = replaceSpaceRuns (toLowerCase (author quote));
          tags3 = tags2 @ [[''t'', authorTag]];
          tags4 = tags3 @ [[''client'', ''Cypherpunk Quotes Bot'']]
      in tags4)"




section \<open>Scenarios\<close>

text \<open>A quote of the dataset, and a small world around it: a key of 64 hexadecimal
  digits, a signer that fills in fixed identifiers, relays that reject, accept, or report
  the event as already known.\<close>

definition hughes_1993_001 :: Quote where
  "hughes_1993_001 =
     \<lparr>qid = ''hughes-1993-001'', qtext = ''Privacy is necessary...'', author = ''Eric Hughes'',
      source = Some ''A Cypherpunk's Manifesto'', year = Some 1993,
      tags = [''privacy'', ''manifesto'']\<rparr>"

definition may_1988_001 :: Quote where
  "may_1988_001 =
     \<lparr>qid = ''may-1988-001'', qtext = ''Arise, you have nothing to lose but your barbed wire fences!'',
      author = ''Timothy C. May'', source = Some ''The Crypto Anarchist Manifesto'', year = Some 1988,
      tags = [''crypto-anarchy'']\<rparr>"







definition relayFails :: RelayNet where
  "relayFails =
     \<lparr>onQuery = QueryThrows (Error ''connection refused''),
      onPublish = (\<lambda>event. PublishRejects (Error ''blocked: not on white-list''))\<rparr>"

definition relayAccepts :: RelayNet where
  "relayAccepts = \<lparr>onQuery = QueryCollects [], onPublish = (\<lambda>event. PublishResolves)\<rparr>"


definition threeRelays :: "(string \<times> RelayNet) list" where
  "threeRelays =
     [(''wss://a'', relayFails), (''wss://b'', relayAccepts), (''wss://c'', relayAccepts)]"

definition failingRelays :: "(string \<times> RelayNet) list" where
  "failingRelays =
     [(''wss://a'', relayFails), (''wss://b'', relayFails), (''wss://c'', relayFails)]"


definition sampleEvent :: NostrEvent where
  "sampleEvent =
     \<lparr>kind = 1, created_at = 1700000000, ev_tags = generateTags hughes_1993_001,
      ev_content = formatQuote hughes_1993_001, event_id = ''e1'', ev_pubkey = ''p1'',
      sig = ''s1''\<rparr>"

definition emptyState :: BotState where
  "emptyState = \<lparr>recentQuoteIds = [], lastPostTimestamp = 0, totalPostsCount = 0\<rparr>"


definition fullHistory :: BotState where
  "fullHistory =
     \<lparr>recentQuoteIds = map (\<lambda>n. ''quote-'' @ natToString n) [0..<100],
      lastPostTimestamp = 1699990000000, totalPostsCount = 100\<rparr>"

section \<open>Properties\<close>

subsection \<open>Hashtag normalisation\<close>

lemma toLowerCaseChar_idem: "toLowerCaseChar (toLowerCaseChar c) = toLowerCaseChar c"
  by (simp add: toLowerCaseChar_def Let_def)

lemma toLowerCase_idem: "toLowerCase (toLowerCase s) = toLowerCase s"
  by (simp add: toLowerCase_def toLowerCaseChar_idem)








subsection \<open>The worked example\<close>

text \<open>
  \<^bold>\<open>C8.\<close> For the quote \<^verbatim>\<open>hughes-1993-001\<close> the script's text ends in an empty line
  followed by \<^verbatim>\<open>#privacy #manifesto\<close>, and its tag list holds the topic tags
  \<^verbatim>\<open>privacy\<close>, \<^verbatim>\<open>manifesto\<close> and \<^verbatim>\<open>erichughes\<close>, the tag \<^verbatim>\<open>quote_id\<close> with the
  quote's identifier and the tag \<^verbatim>\<open>client\<close>; these five are the whole list.
\<close>

theorem hughes_1993_001_composed:
  "formatQuote hughes_1993_001 =
     ([CHR 0x22] @ ''Privacy is necessary...'' @ [CHR 0x22, CHR 0x0A, CHR 0x0A] @ emDash
        @ '' Eric Hughes (A Cypherpunk's Manifesto, 1993)'')
     @ [CHR 0x0A, CHR 0x0A] @ ''#privacy #manifesto''
   \<and> suffix ([CHR 0x0A, CHR 0x0A] @ ''#privacy #manifesto'') (formatQuote hughes_1993_001)
   \<and> generateTags hughes_1993_001 =
       [[''t'', ''privacy''], [''t'', ''manifesto''], [''t'', ''erichughes''],
        [''quote_id'', ''hughes-1993-001''], [''client'', ''Cypherpunk Quotes Bot'']]"
proof -
  have c: "formatQuote hughes_1993_001 =
     ([CHR 0x22] @ ''Privacy is necessary...'' @ [CHR 0x22, CHR 0x0A, CHR 0x0A] @ emDash
        @ '' Eric Hughes (A Cypherpunk's Manifesto, 1993)'')
     @ [CHR 0x0A, CHR 0x0A] @ ''#privacy #manifesto''"
    by code_simp
  have t: "generateTags hughes_1993_001 =
       [[''t'', ''privacy''], [''t'', ''manifesto''], [''t'', ''erichughes''],
        [''quote_id'', ''hughes-1993-001''], [''client'', ''Cypherpunk Quotes Bot'']]"
    by code_simp
  have "suffix ([CHR 0x0A, CHR 0x0A] @ ''#privacy #manifesto'') (formatQuote hughes_1993_001)"
    unfolding c by (rule suffix_appendI) (rule suffix_order.refl)
  with c t show ?thesis by blast
qed

subsection \<open>Strings: what \<open>includes_str\<close> and \<open>slice\<close> compute\<close>




lemma slice_last: "0 < n \<Longrightarrow> slice (- int n) xs = drop (length xs - n) xs"
proof -
  assume "0 < n"
  have "nat (max (int (length xs) + - int n) 0) = length xs - n" by linarith
  with \<open>0 < n\<close> show ?thesis by (simp add: slice_def Let_def)
qed

lemma slice_100: "slice (- 100) xs = drop (length xs - 100) xs"
  using slice_last[of 100 xs] by simp

lemma slice_50: "slice (- 50) xs = drop (length xs - 50) xs"
  using slice_last[of 50 xs] by simp

lemma keep_last:
  "length (drop (length xs - n) xs) \<le> n \<and> suffix (drop (length xs - n) xs) xs
   \<and> (n < length xs \<longrightarrow> length (drop (length xs - n) xs) = n)
   \<and> (length xs \<le> n \<longrightarrow> drop (length xs - n) xs = xs)"
  by (auto simp: suffix_drop)

subsection \<open>Publishing to the relays\<close>

lemma publishLoop_eq:
  "publishLoop event results relayUrls =
     results @ map (\<lambda>(url, net). publishToRelay url (net event)) relayUrls"
  by (induction relayUrls arbitrary: results) auto

lemma publishToRelays_iff:
  "publishToRelays event relayUrls =
     (if \<exists>res \<in> set (publishLoop event [] relayUrls). success res then Inr ()
      else Inl (Error ''Failed to publish to any relay''))"
  by (auto simp: publishToRelays_def Let_def filter_empty_conv)

text \<open>
  \<^bold>\<open>C2.\<close> \<^verbatim>\<open>publishToRelays\<close> throws, and then the error with the message
  \<^verbatim>\<open>Failed to publish to any relay\<close>, exactly when none of the outcomes recorded for the
  relays is a success; it returns normally exactly when at least one is. There is one
  outcome for each configured relay, in the order of the list.
\<close>

theorem publishToRelays_fails_iff_no_success:
  "(publishToRelays event relayUrls = Inl (Error ''Failed to publish to any relay''))
     = (\<forall>res \<in> set (publishLoop event [] relayUrls). \<not> success res)
   \<and> (publishToRelays event relayUrls = Inr ())
     = (\<exists>res \<in> set (publishLoop event [] relayUrls). success res)
   \<and> (publishToRelays event relayUrls = Inl e \<longrightarrow> e = Error ''Failed to publish to any relay'')
   \<and> publishLoop event [] relayUrls = map (\<lambda>(url, net). publishToRelay url (net event)) relayUrls"
  by (auto simp: publishToRelays_iff publishLoop_eq)

text \<open>Of three relays the first rejects and two accept: two successes out of three, and
  the call returns. When all three reject, the call throws.\<close>

theorem publishToRelays_fails_iff_no_success_witness:
  "publishToRelays sampleEvent (publishRelaysOf threeRelays) = Inr ()
   \<and> length (filter success (publishLoop sampleEvent [] (publishRelaysOf threeRelays))) = 2
   \<and> length (publishRelaysOf threeRelays) = 3
   \<and> publishToRelays sampleEvent (publishRelaysOf failingRelays)
       = Inl (Error ''Failed to publish to any relay'')"
proof -
  have ok: "\<exists>res \<in> set (publishLoop sampleEvent [] (publishRelaysOf threeRelays)). success res"
    by code_simp
  have ko: "\<forall>res \<in> set (publishLoop sampleEvent [] (publishRelaysOf failingRelays)). \<not> success res"
    by code_simp
  have n2: "length (filter success (publishLoop sampleEvent [] (publishRelaysOf threeRelays))) = 2"
    by code_simp
  have n3: "length (publishRelaysOf threeRelays) = 3" by code_simp
  from ok publishToRelays_fails_iff_no_success[of sampleEvent "publishRelaysOf threeRelays"]
  have a: "publishToRelays sampleEvent (publishRelaysOf threeRelays) = Inr ()" by blast
  from ko publishToRelays_fails_iff_no_success[of sampleEvent "publishRelaysOf failingRelays"]
  have b: "publishToRelays sampleEvent (publishRelaysOf failingRelays)
       = Inl (Error ''Failed to publish to any relay'')" by blast
  from a b n2 n3 show ?thesis by blast
qed



subsection \<open>The run and the persisted history\<close>

lemma updateState_eq:
  "updateState state quote now =
     \<lparr>recentQuoteIds =
        drop (length (recentQuoteIds state) + 1 - 100) (recentQuoteIds state @ [qid quote]),
      lastPostTimestamp = now, totalPostsCount = totalPostsCount state + 1\<rparr>"
  by (cases state) (simp add: updateState_def Let_def slice_100)



text \<open>
  \<^bold>\<open>C4.\<close> After the update that follows a post, the list of recent identifiers has at
  most 100 entries in the script and at most 50 in the dashboard, and it is a suffix of the
  old list with the new identifier appended: the entries kept are the most recent ones in
  their order. When that longer list exceeds the cap, exactly as many entries as the cap
  are kept; when it does not, nothing is dropped.
\<close>

theorem history_truncated_to_cap:
  "length (recentQuoteIds (updateState state quote now)) \<le> 100
   \<and> suffix (recentQuoteIds (updateState state quote now)) (recentQuoteIds state @ [qid quote])
   \<and> (100 < length (recentQuoteIds state @ [qid quote])
        \<longrightarrow> length (recentQuoteIds (updateState state quote now)) = 100)
   \<and> (length (recentQuoteIds state @ [qid quote]) \<le> 100
        \<longrightarrow> recentQuoteIds (updateState state quote now) = recentQuoteIds state @ [qid quote])
   \<and> (\<exists>saved. recordPostedQuote stored quoteId now = Some saved
        \<and> length (recentQuoteIds saved) \<le> 50
        \<and> suffix (recentQuoteIds saved) (recentQuoteIds (getBotState stored) @ [quoteId])
        \<and> (50 < length (recentQuoteIds (getBotState stored) @ [quoteId])
             \<longrightarrow> length (recentQuoteIds saved) = 50)
        \<and> (length (recentQuoteIds (getBotState stored) @ [quoteId]) \<le> 50
             \<longrightarrow> recentQuoteIds saved = recentQuoteIds (getBotState stored) @ [quoteId]))"
proof -
  have bot: "recentQuoteIds (updateState state quote now)
      = drop (length (recentQuoteIds state @ [qid quote]) - 100)
          (recentQuoteIds state @ [qid quote])"
    by (simp add: updateState_eq)
  have dash: "recordPostedQuote stored quoteId now =
      Some ((getBotState stored)\<lparr>recentQuoteIds :=
              drop (length (recentQuoteIds (getBotState stored) @ [quoteId]) - 50)
                (recentQuoteIds (getBotState stored) @ [quoteId]),
            lastPostTimestamp := now,
            totalPostsCount := totalPostsCount (getBotState stored) + 1\<rparr>)"
    by (simp add: recordPostedQuote_def Let_def saveBotState_def slice_50)
  from keep_last[of "recentQuoteIds state @ [qid quote]" 100]
  have 1: "length (recentQuoteIds (updateState state quote now)) \<le> 100
   \<and> suffix (recentQuoteIds (updateState state quote now)) (recentQuoteIds state @ [qid quote])
   \<and> (100 < length (recentQuoteIds state @ [qid quote])
        \<longrightarrow> length (recentQuoteIds (updateState state quote now)) = 100)
   \<and> (length (recentQuoteIds state @ [qid quote]) \<le> 100
        \<longrightarrow> recentQuoteIds (updateState state quote now) = recentQuoteIds state @ [qid quote])"
    unfolding bot .
  from keep_last[of "recentQuoteIds (getBotState stored) @ [quoteId]" 50]
  have 2: "\<exists>saved. recordPostedQuote stored quoteId now = Some saved
        \<and> length (recentQuoteIds saved) \<le> 50
        \<and> suffix (recentQuoteIds saved) (recentQuoteIds (getBotState stored) @ [quoteId])
        \<and> (50 < length (recentQuoteIds (getBotState stored) @ [quoteId])
             \<longrightarrow> length (recentQuoteIds saved) = 50)
        \<and> (length (recentQuoteIds (getBotState stored) @ [quoteId]) \<le> 50
             \<longrightarrow> recentQuoteIds saved = recentQuoteIds (getBotState stored) @ [quoteId])"
    unfolding dash by simp
  from 1 2 show ?thesis by blast
qed

text \<open>A history of 100 identifiers and one more post: the script keeps 100 of the 101,
  the dashboard 50; after a first post on an empty history nothing is dropped.\<close>

theorem history_truncated_to_cap_witness:
  "100 < length (recentQuoteIds fullHistory @ [qid hughes_1993_001])
   \<and> length (recentQuoteIds (updateState fullHistory hughes_1993_001 1700000009456)) = 100
   \<and> length (recentQuoteIds emptyState @ [qid hughes_1993_001]) \<le> 100
   \<and> recentQuoteIds (updateState emptyState hughes_1993_001 1700000009456)
       = recentQuoteIds emptyState @ [qid hughes_1993_001]
   \<and> (\<exists>saved. recordPostedQuote (Some fullHistory) ''hughes-1993-001'' 1700000009456 = Some saved
        \<and> length (recentQuoteIds saved) = 50)"
proof -
  have h1: "100 < length (recentQuoteIds fullHistory @ [qid hughes_1993_001])"
    by (simp add: fullHistory_def)
  have h2: "length (recentQuoteIds emptyState @ [qid hughes_1993_001]) \<le> 100"
    by (simp add: emptyState_def)
  have h3: "50 < length (recentQuoteIds (getBotState (Some fullHistory)) @ [''hughes-1993-001''])"
    by (simp add: fullHistory_def getBotState_def)
  from history_truncated_to_cap[of fullHistory hughes_1993_001 1700000009456
      "Some fullHistory" "''hughes-1993-001''"] h1 h3
  have a: "length (recentQuoteIds (updateState fullHistory hughes_1993_001 1700000009456)) = 100
     \<and> (\<exists>saved. recordPostedQuote (Some fullHistory) ''hughes-1993-001'' 1700000009456 = Some saved
        \<and> length (recentQuoteIds saved) = 50)"
    by blast
  from history_truncated_to_cap[of emptyState hughes_1993_001 1700000009456] h2
  have b: "recentQuoteIds (updateState emptyState hughes_1993_001 1700000009456)
       = recentQuoteIds emptyState @ [qid hughes_1993_001]"
    by blast
  from h1 h2 a b show ?thesis by blast
qed

subsection \<open>Choosing a quote\<close>

lemma spreadSet_fold_set: "set (foldl (\<lambda>acc x. if x \<in> set acc then acc else acc @ [x]) acc xs) = set acc \<union> set xs"
  by (induction xs arbitrary: acc) auto

lemma spreadSet_fold_distinct: "distinct acc \<Longrightarrow> distinct (foldl (\<lambda>acc x. if x \<in> set acc then acc else acc @ [x]) acc xs)"
  by (induction xs arbitrary: acc) auto

lemma set_spreadSet: "set (spreadSet xs) = set xs"
  by (simp add: spreadSet_def spreadSet_fold_set)

lemma distinct_spreadSet: "distinct (spreadSet xs)"
  by (simp add: spreadSet_def spreadSet_fold_distinct)

lemma recentSet_subset: "recentSet recentIds nostrQuoteIds \<subseteq> set recentIds \<union> set nostrQuoteIds"
proof -
  have "set (drop k (spreadSet (recentIds @ nostrQuoteIds))) \<subseteq> set (spreadSet (recentIds @ nostrQuoteIds))" for k
    by (rule set_drop_subset)
  then show ?thesis by (simp add: recentSet_def Let_def slice_100 set_spreadSet)
qed

lemma randomIndex_less:
  assumes "0 \<le> r" "r < 1" "0 < n"
  shows "randomIndex r n < n"
proof -
  have "r * real n < real n" using assms by simp
  then have "\<lfloor>r * real n\<rfloor> < int n" by linarith
  moreover have "0 \<le> \<lfloor>r * real n\<rfloor>" using assms by simp
  ultimately show ?thesis unfolding randomIndex_def by linarith
qed

lemma randomIndex_eq_iff:
  assumes "0 \<le> r" "0 < n"
  shows "(randomIndex r n = i) = (real i / real n \<le> r \<and> r < real (i + 1) / real n)"
proof -
  have nn: "0 \<le> r * real n" using assms by simp
  have "(randomIndex r n = i) = (\<lfloor>r * real n\<rfloor> = int i)"
    unfolding randomIndex_def using nn by (metis nat_int int_nat_eq zero_le_floor)
  also have "\<dots> = (real i \<le> r * real n \<and> r * real n < real i + 1)"
    by (simp add: floor_eq_iff)
  also have "\<dots> = (real i / real n \<le> r \<and> r < real (i + 1) / real n)"
    using assms by (simp add: pos_divide_le_eq pos_less_divide_eq add.commute)
  finally show ?thesis .
qed

text \<open>With an empty dataset there is no quote to return: the script reads past the end of
  the empty array and gets \<^verbatim>\<open>undefined\<close>.\<close>

theorem getRandomQuote_empty_dataset: "getRandomQuote [] [] [] (1 / 2) = None"
  by (simp add: getRandomQuote_def at_index_def)

text \<open>
  \<^bold>\<open>C1.\<close> For a dataset that is not empty and a random number in \<open>[0, 1)\<close>: unless every
  quote of the dataset has its identifier in the exclusion set, \<^verbatim>\<open>getRandomQuote\<close> returns
  a quote of the dataset whose identifier is not in it; and when every quote is excluded it
  returns the quote at index \<open>\<lfloor>r \<cdot> n\<rfloor>\<close> of the whole dataset of \<open>n\<close> quotes, which is the
  index \<open>i\<close> exactly for the numbers from \<open>i / n\<close> up to \<open>(i + 1) / n\<close>, a range of the same
  width for each quote. The exclusion set is the last 100 entries of the identifiers of
  the state file followed by those found on the relays, each kept once.
\<close>

theorem getRandomQuote_avoids_recent:
  assumes "quotes \<noteq> []" and "0 \<le> r" and "r < 1"
  shows "(\<not> (\<forall>q \<in> set quotes. qid q \<in> recentSet recentIds nostrQuoteIds)
            \<longrightarrow> (\<exists>q. getRandomQuote quotes recentIds nostrQuoteIds r = Some q
                    \<and> q \<in> set quotes \<and> qid q \<notin> recentSet recentIds nostrQuoteIds))
       \<and> ((\<forall>q \<in> set quotes. qid q \<in> recentSet recentIds nostrQuoteIds)
            \<longrightarrow> getRandomQuote quotes recentIds nostrQuoteIds r
                  = Some (quotes ! randomIndex r (length quotes))
                \<and> randomIndex r (length quotes) < length quotes
                \<and> (\<forall>i < length quotes.
                      (randomIndex r (length quotes) = i)
                        = (real i / real (length quotes) \<le> r
                           \<and> r < real (i + 1) / real (length quotes))))
       \<and> recentSet recentIds nostrQuoteIds
           = set (drop (length (spreadSet (recentIds @ nostrQuoteIds)) - 100)
                   (spreadSet (recentIds @ nostrQuoteIds)))
       \<and> distinct (spreadSet (recentIds @ nostrQuoteIds))
       \<and> set (spreadSet (recentIds @ nostrQuoteIds)) = set recentIds \<union> set nostrQuoteIds"
proof -
  let ?R = "recentSet recentIds nostrQuoteIds"
  let ?avail = "filter (\<lambda>q. qid q \<notin> ?R) quotes"
  have n: "0 < length quotes" using assms(1) by simp
  have fresh: "\<exists>q. getRandomQuote quotes recentIds nostrQuoteIds r = Some q
                    \<and> q \<in> set quotes \<and> qid q \<notin> ?R"
    if "\<not> (\<forall>q \<in> set quotes. qid q \<in> ?R)"
  proof -
    from that have ne: "?avail \<noteq> []" by (auto simp: filter_empty_conv)
    then have "0 < length ?avail" by simp
    from randomIndex_less[OF assms(2,3) this]
    have lt: "randomIndex r (length ?avail) < length ?avail" .
    then have "?avail ! randomIndex r (length ?avail) \<in> set ?avail" by (rule nth_mem)
    then have "?avail ! randomIndex r (length ?avail) \<in> set quotes
               \<and> qid (?avail ! randomIndex r (length ?avail)) \<notin> ?R"
      by simp
    moreover have "getRandomQuote quotes recentIds nostrQuoteIds r
                     = Some (?avail ! randomIndex r (length ?avail))"
      using ne lt by (simp add: getRandomQuote_def Let_def at_index_def)
    ultimately show ?thesis by blast
  qed
  have repeat: "getRandomQuote quotes recentIds nostrQuoteIds r
                  = Some (quotes ! randomIndex r (length quotes))
                \<and> randomIndex r (length quotes) < length quotes
                \<and> (\<forall>i < length quotes.
                      (randomIndex r (length quotes) = i)
                        = (real i / real (length quotes) \<le> r
                           \<and> r < real (i + 1) / real (length quotes)))"
    if "\<forall>q \<in> set quotes. qid q \<in> ?R"
  proof -
    from that have "?avail = []" by (auto simp: filter_empty_conv)
    moreover have lt: "randomIndex r (length quotes) < length quotes"
      by (rule randomIndex_less[OF assms(2,3) n])
    ultimately have "getRandomQuote quotes recentIds nostrQuoteIds r
                  = Some (quotes ! randomIndex r (length quotes))"
      by (simp add: getRandomQuote_def Let_def at_index_def)
    with lt randomIndex_eq_iff[OF assms(2) n] show ?thesis by blast
  qed
  have rs: "?R = set (drop (length (spreadSet (recentIds @ nostrQuoteIds)) - 100)
                   (spreadSet (recentIds @ nostrQuoteIds)))"
    by (simp add: recentSet_def Let_def slice_100)
  have "set (spreadSet (recentIds @ nostrQuoteIds)) = set recentIds \<union> set nostrQuoteIds"
    by (simp add: set_spreadSet)
  with fresh repeat rs distinct_spreadSet[of "recentIds @ nostrQuoteIds"] show ?thesis by blast
qed

text \<open>Two quotes, one of them posted before: the other one is returned. Both posted
  before, one known from the state file and one from the relays: a repeat is returned,
  here the second of the two for the random number 3/4.\<close>

theorem getRandomQuote_avoids_recent_witness:
  "getRandomQuote [hughes_1993_001, may_1988_001] [''hughes-1993-001''] [] (1 / 2) = Some may_1988_001
   \<and> getRandomQuote [hughes_1993_001, may_1988_001] [''may-1988-001''] [''hughes-1993-001''] (3 / 4)
       = Some may_1988_001"
proof -
  let ?qs = "[hughes_1993_001, may_1988_001]"
  have ne: "?qs \<noteq> []" by simp
  have r1: "(0::real) \<le> 1 / 2" "(1::real) / 2 < 1" by simp_all
  have r2: "(0::real) \<le> 3 / 4" "(3::real) / 4 < 1" by simp_all
  have s1: "recentSet [''hughes-1993-001''] [] = {''hughes-1993-001''}"
    by (simp add: recentSet_def spreadSet_def slice_def)
  have s2: "recentSet [''may-1988-001''] [''hughes-1993-001''] = {''may-1988-001'', ''hughes-1993-001''}"
    by (simp add: recentSet_def spreadSet_def slice_def)
  have open1: "\<not> (\<forall>q \<in> set ?qs. qid q \<in> recentSet [''hughes-1993-001''] [])"
    unfolding s1 by (simp add: may_1988_001_def)
  have all2: "\<forall>q \<in> set ?qs. qid q \<in> recentSet [''may-1988-001''] [''hughes-1993-001'']"
    unfolding s2 by (simp add: may_1988_001_def hughes_1993_001_def)
  from getRandomQuote_avoids_recent[OF ne r1, of "[''hughes-1993-001'']" "[]"] open1
  obtain q where q: "getRandomQuote ?qs [''hughes-1993-001''] [] (1 / 2) = Some q"
      "q \<in> set ?qs" "qid q \<notin> recentSet [''hughes-1993-001''] []"
    by blast
  from q(2,3) have "q = may_1988_001" unfolding s1 by (auto simp: hughes_1993_001_def)
  with q(1) have a: "getRandomQuote ?qs [''hughes-1993-001''] [] (1 / 2) = Some may_1988_001"
    by simp
  from getRandomQuote_avoids_recent[OF ne r2, of "[''may-1988-001'']" "[''hughes-1993-001'']"] all2
  have "getRandomQuote ?qs [''may-1988-001''] [''hughes-1993-001''] (3 / 4)
          = Some (?qs ! randomIndex (3 / 4) (length ?qs))"
    by blast
  then have b: "getRandomQuote ?qs [''may-1988-001''] [''hughes-1993-001''] (3 / 4) = Some may_1988_001"
    by (simp add: randomIndex_def)
  from a b show ?thesis by blast
qed

subsection \<open>The private key\<close>









subsection \<open>The tags of the event\<close>

text \<open>The dashboard's tag list for the quote \<^verbatim>\<open>hughes-1993-001\<close> under the default
  configuration: topic tags and the client tag, and no tag \<^verbatim>\<open>quote_id\<close>.\<close>

theorem generateQuoteTags_no_quote_id:
  "[''quote_id'', ''hughes-1993-001''] \<notin> set (generateQuoteTags hughes_1993_001 DEFAULT_BOT_CONFIG)
   \<and> generateQuoteTags hughes_1993_001 DEFAULT_BOT_CONFIG =
       [[''t'', ''cypherpunk''], [''t'', ''bitcoin''], [''t'', ''privacy''], [''t'', ''freedom''],
        [''t'', ''manifesto''], [''t'', ''eric-hughes''], [''client'', ''Cypherpunk Quotes Bot'']]"
  by code_simp

text \<open>
  \<^bold>\<open>C7.\<close> The tag list of the posting script is the normalised topic tags of the quote,
  the normalised author, the tag \<^verbatim>\<open>quote_id\<close> with the quote's identifier and the client
  tag, so it holds \<^verbatim>\<open>['quote_id', quote.id]\<close>. The tag list of the dashboard holds topic
  tags and the client tag only, and no tag \<^verbatim>\<open>quote_id\<close> whatever the quote and the
  configuration.
\<close>

theorem quote_id_tag_in_script_only:
  "[''quote_id'', qid quote] \<in> set (generateTags quote)
   \<and> generateTags quote =
       map (\<lambda>tag. [''t'', normalizeHashtag tag]) (tags quote)
         @ [[''t'', normalizeHashtag (author quote)], [''quote_id'', qid quote],
            [''client'', ''Cypherpunk Quotes Bot'']]
   \<and> (\<forall>tag \<in> set (generateQuoteTags quote config).
         (\<exists>v. tag = [''t'', v]) \<or> tag = [''client'', ''Cypherpunk Quotes Bot''])
   \<and> (\<forall>v. [''quote_id'', v] \<notin> set (generateQuoteTags quote config))"
proof -
  have g: "generateTags quote =
       map (\<lambda>tag. [''t'', normalizeHashtag tag]) (tags quote)
         @ [[''t'', normalizeHashtag (author quote)], [''quote_id'', qid quote],
            [''client'', ''Cypherpunk Quotes Bot'']]"
    by (simp add: generateTags_def Let_def)
  then have m: "[''quote_id'', qid quote] \<in> set (generateTags quote)" by simp
  have d: "\<forall>tag \<in> set (generateQuoteTags quote config).
         (\<exists>v. tag = [''t'', v]) \<or> tag = [''client'', ''Cypherpunk Quotes Bot'']"
    by (auto simp: generateQuoteTags_def Let_def)
  then have "\<forall>v. [''quote_id'', v] \<notin> set (generateQuoteTags quote config)"
    by fastforce
  with g m d show ?thesis by blast
qed

theorem quote_id_tag_in_script_only_witness:
  "[''quote_id'', ''hughes-1993-001''] \<in> set (generateTags hughes_1993_001)
   \<and> [''quote_id'', ''hughes-1993-001''] \<notin> set (generateQuoteTags hughes_1993_001 DEFAULT_BOT_CONFIG)"
  using quote_id_tag_in_script_only[of hughes_1993_001 DEFAULT_BOT_CONFIG]
  by (simp add: hughes_1993_001_def)

subsection \<open>The text of the post\<close>






end
